theory Spec2Isabelle
  imports Main
begin

section \<open>JavaScript values, exceptions and the object store\<close>

text \<open>
  The loader of \<^verbatim>\<open>src/index.js\<close> is embedded as state-passing functions. JavaScript
  values are kept as far as the loader looks at them: their truthiness (for \<^verbatim>\<open>||\<close>) and
  their identity. \<open>JRef n\<close> is a reference to the object at address \<open>n\<close> of the store,
  \<open>EmptyRecord\<close> the fresh object written \<^verbatim>\<open>{}\<close>.
\<close>

datatype jsval = Undefined | Null | JBool bool | JNum int | JStr string | JRef nat | EmptyRecord

fun truthy :: "jsval \<Rightarrow> bool" where
  "truthy Undefined = False"
| "truthy Null = False"
| "truthy (JBool b) = b"
| "truthy (JNum n) = (n \<noteq> 0)"
| "truthy (JStr s) = (s \<noteq> [])"
| "truthy (JRef a) = True"
| "truthy EmptyRecord = True"

datatype exn = SyntaxError string | TypeError string | Thrown string

text \<open>
  The store holds the objects that script code can reach: \<open>objs s a p\<close> is the value of
  property \<open>p\<close> of the object at address \<open>a\<close> (\<open>None\<close> when the property is absent).
  The sandbox is a plain object of the store; a sandbox that traps property access is outside
  this model. \<open>hidden\<close> is the private state of the collaborators of \<^verbatim>\<open>./utils\<close>
  (the markers of the global-property diff), of an arbitrary type.
\<close>

record 'g store =
  objs :: "nat \<Rightarrow> string \<Rightarrow> jsval option"
  hidden :: 'g

text \<open>The real global object, \<^verbatim>\<open>(0, eval)('window')\<close>, lives at address 0.\<close>

definition globalWindow :: nat where
  "globalWindow = 0"

definition setProp :: "nat \<Rightarrow> string \<Rightarrow> jsval \<Rightarrow> 'g store \<Rightarrow> 'g store" where
  "setProp a p v s = s\<lparr>objs := (objs s)(a := (objs s a)(p \<mapsto> v))\<rparr>"

definition getProp :: "nat \<Rightarrow> string \<Rightarrow> 'g store \<Rightarrow> jsval" where
  "getProp a p s = (case objs s a p of None \<Rightarrow> Undefined | Some v \<Rightarrow> v)"

section \<open>Script descriptors\<close>

text \<open>
  A script descriptor is a string (inline markup or a location) or an object
  \<^verbatim>\<open>{src, async, crossOrigin}\<close>. An object has an identity, its address \<open>oid\<close>: two
  descriptors are the same object when their addresses are equal. After resolution, \<^verbatim>\<open>scriptsText[i]\<close> is a text, the
  handle \<^verbatim>\<open>{src, async: true, content}\<close> of an async script (\<open>content\<close> is the address of
  a promise), or \<^verbatim>\<open>undefined\<close> when read out of range.
\<close>

datatype script = Str string | Obj (oid: nat) (osrc: string) (oasync: bool) (ocrossOrigin: bool)

datatype scriptText = Text string | AsyncHandle string nat | Undef

fun toStr :: "script \<Rightarrow> string" where
  "toStr (Str s) = s"
| "toStr (Obj i s a x) = ''[object Object]''"

fun textOf :: "scriptText \<Rightarrow> string" where
  "textOf (Text t) = t"
| "textOf (AsyncHandle s p) = ''[object Object]''"
| "textOf Undef = ''undefined''"

section \<open>The sandbox code generator\<close>

definition isInlineCode :: "string \<Rightarrow> bool" where
  "isInlineCode code = (case code of [] \<Rightarrow> False | c # cs \<Rightarrow> c = CHR ''<'')"

fun join :: "string \<Rightarrow> string list \<Rightarrow> string" where
  "join sep [] = []"
| "join sep [x] = x"
| "join sep (x # y # ys) = x @ sep @ join sep (y # ys)"

definition newline :: string where
  "newline = [CHR ''\<newline>'']"

text \<open>
  \<^verbatim>\<open>getExecutableScript(scriptSrc, scriptText, {proxy, strictGlobal, scopedGlobalVariables})\<close>.
  \<^verbatim>\<open>isInlineCode(scriptSrc)\<close> runs first and calls \<^verbatim>\<open>startsWith\<close>, which an object
  descriptor does not have: a TypeError, before anything is written. Otherwise the sandbox is
  written to the property \<^verbatim>\<open>proxy\<close> of the global window and the code string is returned.
\<close>

definition getExecutableScript ::
  "script \<Rightarrow> string \<Rightarrow> nat \<Rightarrow> bool \<Rightarrow> string list \<Rightarrow> 'g store \<Rightarrow> (exn + string) \<times> 'g store" where
  "getExecutableScript scriptSrc scriptText prox strict scoped s =
     (case scriptSrc of
        Obj i a b c \<Rightarrow> (Inl (TypeError ''code.startsWith is not a function''), s)
      | Str loc \<Rightarrow>
          (let sourceUrl = (if isInlineCode loc then [] else ''//# sourceURL='' @ loc @ newline);
               scopedGlobalVariableDefinition =
                 (if length scoped \<noteq> 0 then ''const {'' @ join '','' scoped @ ''}=this;'' else []);
               s' = setProp globalWindow ''proxy'' (JRef prox) s
           in (Inr
                (if strict then
                   (if scopedGlobalVariableDefinition \<noteq> [] then
                      '';(function(){with(this){'' @ scopedGlobalVariableDefinition @ scriptText
                        @ newline @ sourceUrl @ ''}}).bind(window.proxy)();''
                    else
                      '';(function(window, self, globalThis){with(window){;'' @ scriptText
                        @ newline @ sourceUrl
                        @ ''}}).bind(window.proxy)(window.proxy, window.proxy, window.proxy);'')
                 else
                   '';(function(window, self, globalThis){;'' @ scriptText @ newline @ sourceUrl
                     @ ''}).bind(window.proxy)(window.proxy, window.proxy, window.proxy);''),
               s')))"

text \<open>
  The shape of an immediately invoked function expression, to read the generated code
  against: formal parameters, body, the object bound to \<^verbatim>\<open>this\<close>, actual arguments.
\<close>

definition iife :: "string list \<Rightarrow> string \<Rightarrow> string \<Rightarrow> string list \<Rightarrow> string" where
  "iife params body this args =
     '';(function('' @ join '', '' params @ ''){'' @ body @ ''}).bind('' @ this @ '')(''
       @ join '', '' args @ '');''"

definition sourceUrlAnnotation :: "string \<Rightarrow> string" where
  "sourceUrlAnnotation loc = ''//# sourceURL='' @ loc @ newline"

section \<open>Collaborators, options and the loader's world\<close>

text \<open>
  The functions imported from \<^verbatim>\<open>./utils\<close> and \<^verbatim>\<open>./process-tpl\<close> are not defined in
  \<^verbatim>\<open>src/index.js\<close> and are parameters: \<open>evalCode\<close> runs a code string and may change the
  store and throw; \<open>noteGlobalProps\<close> and \<open>getGlobalProp\<close> are the global-property diff;
  \<open>getInlineCode\<close> extracts the code of inline markup; the last two build the placeholder
  comments of a template.
\<close>

record 'g utils =
  evalCode :: "script \<Rightarrow> string \<Rightarrow> 'g store \<Rightarrow> exn option \<times> 'g store"
  noteGlobalProps :: "nat \<Rightarrow> 'g store \<Rightarrow> 'g store"
  getGlobalProp :: "nat \<Rightarrow> 'g store \<Rightarrow> string option"
  getInlineCode :: "string \<Rightarrow> string"
  genLinkReplaceSymbol :: "string \<Rightarrow> string"
  genScriptReplaceSymbol :: "string \<Rightarrow> string"

text \<open>
  The options of one \<^verbatim>\<open>execScripts\<close> call, after destructuring with their defaults.
  \<open>success\<close> is \<open>None\<close> when no callback was given; \<open>beforeExec\<close> returns the
  replacement code, \<open>None\<close> for a falsy non-string result.
\<close>

record 'g ctx =
  proxy :: nat
  strictGlobal :: bool
  scopedGlobalVariables :: "string list"
  success :: "(jsval \<Rightarrow> 'g store \<Rightarrow> exn option \<times> 'g store) option"
  beforeExec :: "string \<Rightarrow> script \<Rightarrow> 'g store \<Rightarrow> (exn + string option) \<times> 'g store"
  afterExec :: "string \<Rightarrow> script \<Rightarrow> 'g store \<Rightarrow> exn option \<times> 'g store"

datatype 'a pstate = Pending | Fulfilled 'a | Rejected exn

datatype origin = ForStyle | ForScript | ForHTML

datatype idleTask = IdleFetch string bool nat

text \<open>
  The world: the store; the three module-level caches (location to promise address); the heap
  \<open>promises\<close> of promises of text (one per fetch chain, one per async handle's content); the
  heap \<open>results\<close> of the promises made on line 292; the number of promises of a loaded
  handle made by \<^verbatim>\<open>importHTML\<close>; the queue of idle callbacks; the links
  \<^verbatim>\<open>fetchScript(src).then(resolve, reject)\<close> from a fetch chain to a content promise; the
  reactions registered on the content of async scripts; the fetch chains that carry the
  \<^verbatim>\<open>catch\<close> of \<^verbatim>\<open>fetchScript\<close> and those for which it called the error callback; the
  timers set by \<^verbatim>\<open>throwNonBlockingError\<close>, the console and the errors that reached the
  host; the order in which the promises of text were settled. Five fields are observations
  and not program state: \<open>fetchLog\<close> records every call of the fetch capability (which
  cache asked, the location, whether \<^verbatim>\<open>{credentials: 'include'}\<close> was passed), \<open>issued\<close>
  the indices the scheduler handed to \<^verbatim>\<open>exec\<close>, \<open>started\<close> the calls of \<^verbatim>\<open>geval\<close>,
  \<open>evaluated\<close> the calls of \<open>evalCode\<close>, \<open>delivered\<close> the values given to
  \<^verbatim>\<open>success || resolve\<close>. A cache holds the locations written into it and nothing
  else: a location is taken to be a URL, and the members that the cache objects inherit from
  \<^verbatim>\<open>Object.prototype\<close> (a location spelled \<^verbatim>\<open>constructor\<close> or \<^verbatim>\<open>toString\<close>, which
  the code would find in an empty cache) are outside the model.
\<close>

record 'g world =
  js :: "'g store"
  styleCache :: "string \<Rightarrow> nat option"
  scriptCache :: "string \<Rightarrow> nat option"
  embedHTMLCache :: "string \<Rightarrow> nat option"
  promises :: "string pstate list"
  results :: "jsval pstate list"
  handlePromises :: nat
  idleQueue :: "idleTask list"
  links :: "(nat \<times> nat) list"
  reactions :: "(nat \<times> string \<times> 'g ctx) list"
  catchers :: "nat list"
  errorCalls :: "nat list"
  timers :: "(exn \<times> string) list"
  console :: "string list"
  hostErrors :: "exn list"
  settleOrder :: "nat list"
  fetchLog :: "(origin \<times> string \<times> bool) list"
  issued :: "nat list"
  started :: "(script \<times> string) list"
  evaluated :: "(script \<times> string) list"
  delivered :: "jsval list"

definition onJs :: "('g store \<Rightarrow> 'a \<times> 'g store) \<Rightarrow> 'g world \<Rightarrow> 'a \<times> 'g world" where
  "onJs f w = (case f (js w) of (r, s) \<Rightarrow> (r, w\<lparr>js := s\<rparr>))"

section \<open>Executing one script\<close>

text \<open>\<^verbatim>\<open>geval(scriptSrc, inlineScript)\<close>, lines 211 to 218.\<close>

definition geval ::
  "'g utils \<Rightarrow> 'g ctx \<Rightarrow> script \<Rightarrow> string \<Rightarrow> 'g world \<Rightarrow> exn option \<times> 'g world" where
  "geval u c scriptSrc inlineScript w =
     (case onJs (beforeExec c inlineScript scriptSrc)
             (w\<lparr>started := started w @ [(scriptSrc, inlineScript)]\<rparr>) of
        (Inl e, w1) \<Rightarrow> (Some e, w1)
      | (Inr r, w1) \<Rightarrow>
          (let rawCode = (case r of None \<Rightarrow> inlineScript
                          | Some code \<Rightarrow> if code \<noteq> [] then code else inlineScript)
           in case onJs (getExecutableScript scriptSrc rawCode (proxy c) (strictGlobal c)
                          (scopedGlobalVariables c)) w1 of
                (Inl e, w2) \<Rightarrow> (Some e, w2)
              | (Inr code, w2) \<Rightarrow>
                  (case onJs (evalCode u scriptSrc code)
                          (w2\<lparr>evaluated := evaluated w2 @ [(scriptSrc, code)]\<rparr>) of
                     (Some e, w3) \<Rightarrow> (Some e, w3)
                   | (None, w3) \<Rightarrow> onJs (afterExec c inlineScript scriptSrc) w3)))"

text \<open>\<^verbatim>\<open>throwNonBlockingError(error, msg)\<close> sets a timer; a fired timer logs and re-throws to the host.\<close>

definition throwNonBlockingError :: "exn \<Rightarrow> string \<Rightarrow> 'g world \<Rightarrow> 'g world" where
  "throwNonBlockingError e msg w = w\<lparr>timers := timers w @ [(e, msg)]\<rparr>"

definition fireTimer :: "'g world \<Rightarrow> 'g world" where
  "fireTimer w =
     (case timers w of
        [] \<Rightarrow> w
      | (e, msg) # ts \<Rightarrow>
          w\<lparr>timers := ts, console := console w @ [msg], hostErrors := hostErrors w @ [e]\<rparr>)"

text \<open>
  The callback handed to \<^verbatim>\<open>schedule\<close> is \<^verbatim>\<open>success || resolve\<close>. \<^verbatim>\<open>resolve\<close> settles the
  promise at \<open>pid\<close> if it is still pending and is ignored otherwise.
\<close>

definition settle :: "nat \<Rightarrow> jsval pstate \<Rightarrow> 'g world \<Rightarrow> 'g world" where
  "settle pid st w =
     (if pid < length (results w) \<and> results w ! pid = Pending
      then w\<lparr>results := (results w)[pid := st]\<rparr> else w)"

definition resolvePromise :: "'g ctx \<Rightarrow> nat \<Rightarrow> jsval \<Rightarrow> 'g world \<Rightarrow> exn option \<times> 'g world" where
  "resolvePromise c pid v w =
     (case success c of
        Some f \<Rightarrow> onJs (f v) (w\<lparr>delivered := delivered w @ [v]\<rparr>)
      | None \<Rightarrow> (None, settle pid (Fulfilled v) (w\<lparr>delivered := delivered w @ [v]\<rparr>)))"

text \<open>
  The entry identifier is absent (\<^verbatim>\<open>undefined\<close> or \<^verbatim>\<open>null\<close>), a string, or a descriptor
  object (the template parser falls back on the last script of the document, whatever it
  is). \<^verbatim>\<open>scriptSrc === entry\<close>, line 235, compares strings by their characters and objects
  by identity; \<^verbatim>\<open>!entry\<close>, line 284, holds for an absent entry and for the empty string.
\<close>

fun sameValue :: "script \<Rightarrow> script \<Rightarrow> bool" where
  "sameValue (Str a) (Str b) = (a = b)"
| "sameValue (Obj i s a x) (Obj j t b y) = (i = j)"
| "sameValue (Str a) (Obj j t b y) = False"
| "sameValue (Obj i s a x) (Str b) = False"

definition strictEq :: "script \<Rightarrow> script option \<Rightarrow> bool" where
  "strictEq scriptSrc entry = (case entry of None \<Rightarrow> False | Some e \<Rightarrow> sameValue scriptSrc e)"

definition falsy :: "script option \<Rightarrow> bool" where
  "falsy entry =
     (case entry of None \<Rightarrow> True | Some (Str s) \<Rightarrow> s = [] | Some (Obj i s a x) \<Rightarrow> False)"

definition entryMsg :: "script \<Rightarrow> string" where
  "entryMsg scriptSrc =
     ''[import-html-entry]: error occurs while executing entry script '' @ toStr scriptSrc"

definition normalMsg :: "script \<Rightarrow> string" where
  "normalMsg scriptSrc =
     ''[import-html-entry]: error occurs while executing normal script '' @ toStr scriptSrc"

definition asyncMsg :: "string \<Rightarrow> string" where
  "asyncMsg loc = ''[import-html-entry]: error occurs while executing async script '' @ loc"

definition exportsOf :: "'g utils \<Rightarrow> 'g ctx \<Rightarrow> 'g store \<Rightarrow> jsval" where
  "exportsOf u c s =
     (let prop = getGlobalProp u (if strictGlobal c then proxy c else globalWindow) s;
          v = getProp (proxy c) (case prop of None \<Rightarrow> ''undefined'' | Some p \<Rightarrow> p) s
      in if truthy v then v else EmptyRecord)"

text \<open>
  The first argument of \<^verbatim>\<open>geval\<close> for a script that is not the entry, lines 250 to 254:
  \<^verbatim>\<open>scriptSrc.src\<close> when \<^verbatim>\<open>scriptSrc?.src\<close> is truthy, else \<^verbatim>\<open>scriptSrc\<close>.
\<close>

definition evalTarget :: "script \<Rightarrow> script" where
  "evalTarget scriptSrc =
     (case scriptSrc of
        Str s \<Rightarrow> scriptSrc
      | Obj i s a x \<Rightarrow> if s \<noteq> [] then Str s else scriptSrc)"

text \<open>
  \<^verbatim>\<open>exec(scriptSrc, inlineScript, resolve)\<close>, lines 226 to 274; the user-timing marks of
  development builds are left out. The result is the exception that leaves \<^verbatim>\<open>exec\<close>, if any.
\<close>

definition exec ::
  "'g utils \<Rightarrow> 'g ctx \<Rightarrow> script option \<Rightarrow> nat \<Rightarrow> script \<Rightarrow> scriptText \<Rightarrow> 'g world
     \<Rightarrow> exn option \<times> 'g world" where
  "exec u c entry pid scriptSrc inlineScript w =
     (if strictEq scriptSrc entry then
        (let w0 = w\<lparr>js := noteGlobalProps u (if strictGlobal c then proxy c else globalWindow) (js w)\<rparr>
         in case geval u c scriptSrc (textOf inlineScript) w0 of
              (Some e, w1) \<Rightarrow> (Some e, w1\<lparr>console := console w1 @ [entryMsg scriptSrc]\<rparr>)
            | (None, w1) \<Rightarrow>
                (case resolvePromise c pid (exportsOf u c (js w1)) w1 of
                   (Some e, w2) \<Rightarrow> (Some e, w2\<lparr>console := console w2 @ [entryMsg scriptSrc]\<rparr>)
                 | (None, w2) \<Rightarrow> (None, w2)))
      else
        (case inlineScript of
           Text t \<Rightarrow>
             (case geval u c (evalTarget scriptSrc) t w of
                (Some e, w1) \<Rightarrow> (None, throwNonBlockingError e (normalMsg scriptSrc) w1)
              | (None, w1) \<Rightarrow> (None, w1))
         | AsyncHandle loc content \<Rightarrow> (None, w\<lparr>reactions := reactions w @ [(content, loc, c)]\<rparr>)
         | Undef \<Rightarrow> (Some (TypeError ''Cannot read properties of undefined (reading async)''), w)))"

section \<open>The scheduler\<close>

definition nthText :: "scriptText list \<Rightarrow> nat \<Rightarrow> scriptText" where
  "nthText xs i = (if i < length xs then xs ! i else Undef)"

text \<open>\<^verbatim>\<open>schedule(i, resolvePromise)\<close>, lines 276 to 290.\<close>

function schedule ::
  "'g utils \<Rightarrow> 'g ctx \<Rightarrow> script option \<Rightarrow> script list \<Rightarrow> scriptText list \<Rightarrow> nat \<Rightarrow> nat
     \<Rightarrow> 'g world \<Rightarrow> exn option \<times> 'g world" where
  "schedule u c entry scripts scriptsText pid i w =
     (if i < length scripts then
        (case exec u c entry pid (scripts ! i) (nthText scriptsText i)
                (w\<lparr>issued := issued w @ [i]\<rparr>) of
           (Some e, w1) \<Rightarrow> (Some e, w1)
         | (None, w1) \<Rightarrow>
             if falsy entry \<and> i = length scripts - 1 then resolvePromise c pid Undefined w1
             else schedule u c entry scripts scriptsText pid (i + 1) w1)
      else (None, w))"
  by pat_completeness auto
termination
  by (relation "measure (\<lambda>(u, c, entry, scripts, scriptsText, pid, i, w). length scripts - i)") auto

text \<open>
  \<^verbatim>\<open>new Promise(resolve => schedule(0, success || resolve))\<close>, line 292: the promise is
  allocated pending, the executor runs at once, and an exception that leaves it rejects the
  promise unless it is already settled. The result is the promise's address.
\<close>

definition runScripts ::
  "'g utils \<Rightarrow> 'g ctx \<Rightarrow> script option \<Rightarrow> script list \<Rightarrow> scriptText list \<Rightarrow> 'g world
     \<Rightarrow> nat \<times> 'g world" where
  "runScripts u c entry scripts scriptsText w =
     (let pid = length (results w);
          w0 = w\<lparr>results := results w @ [Pending]\<rparr>
      in case schedule u c entry scripts scriptsText pid 0 w0 of
           (Some e, w1) \<Rightarrow> (pid, settle pid (Rejected e) w1)
         | (None, w1) \<Rightarrow> (pid, w1))"

text \<open>
  The world in which the scheduler hands index \<open>i\<close> to \<^verbatim>\<open>exec\<close>, when no earlier index
  stopped it: the effects of \<^verbatim>\<open>exec\<close> on the indices below \<open>i\<close>, in order.
\<close>

fun arrive ::
  "'g utils \<Rightarrow> 'g ctx \<Rightarrow> script option \<Rightarrow> script list \<Rightarrow> scriptText list \<Rightarrow> nat \<Rightarrow> nat
     \<Rightarrow> 'g world \<Rightarrow> 'g world" where
  "arrive u c entry scripts scriptsText pid 0 w = w"
| "arrive u c entry scripts scriptsText pid (Suc k) w =
     (let wk = arrive u c entry scripts scriptsText pid k w
      in snd (exec u c entry pid (scripts ! k) (nthText scriptsText k)
                (wk\<lparr>issued := issued wk @ [k]\<rparr>)))"



section \<open>Resolving styles and scripts through the caches\<close>

text \<open>
  One call of the fetch capability. The promise allocated for it stands for the whole chain
  built on the call, \<^verbatim>\<open>fetch(url).then(response => response.text())\<close> with, for scripts,
  the \<^verbatim>\<open>catch\<close> that calls the error callback and re-throws: it is pending when the
  call returns, and the network settles it later. The capability is taken at its contract,
  returning a promise: it does not throw in the caller's stack.
\<close>

definition fetchCall :: "origin \<Rightarrow> string \<Rightarrow> bool \<Rightarrow> 'g world \<Rightarrow> nat \<times> 'g world" where
  "fetchCall org loc credentials w =
     (length (promises w),
      w\<lparr>promises := promises w @ [Pending], fetchLog := fetchLog w @ [(org, loc, credentials)]\<rparr>)"

text \<open>An element handed to \<^verbatim>\<open>Promise.all\<close>: a plain value, a promise, or an async handle.\<close>

datatype item = Val string | Prom nat | Handle string nat

fun mapState :: "('a \<Rightarrow> 's \<Rightarrow> 'b \<times> 's) \<Rightarrow> 'a list \<Rightarrow> 's \<Rightarrow> 'b list \<times> 's" where
  "mapState f [] w = ([], w)"
| "mapState f (x # xs) w =
     (case f x w of (y, w1) \<Rightarrow> (case mapState f xs w1 of (ys, w2) \<Rightarrow> (y # ys, w2)))"

text \<open>The callback of \<^verbatim>\<open>styles.map\<close>, lines 98 to 109.\<close>

definition resolveStyle :: "'g utils \<Rightarrow> string \<Rightarrow> 'g world \<Rightarrow> item \<times> 'g world" where
  "resolveStyle u styleLink w =
     (if isInlineCode styleLink then (Val (getInlineCode u styleLink), w)
      else (case styleCache w styleLink of
              Some p \<Rightarrow> (Prom p, w)
            | None \<Rightarrow>
                (case fetchCall ForStyle styleLink False w of
                   (p, w1) \<Rightarrow> (Prom p, w1\<lparr>styleCache := (styleCache w1)(styleLink \<mapsto> p)\<rparr>))))"

definition getExternalStyleSheets :: "'g utils \<Rightarrow> string list \<Rightarrow> 'g world \<Rightarrow> item list \<times> 'g world" where
  "getExternalStyleSheets u styles w = mapState (resolveStyle u) styles w"

text \<open>\<^verbatim>\<open>fetchScript(scriptUrl, opts)\<close>, lines 131 to 140.\<close>

definition fetchScript :: "string \<Rightarrow> bool \<Rightarrow> 'g world \<Rightarrow> nat \<times> 'g world" where
  "fetchScript scriptUrl credentials w =
     (case scriptCache w scriptUrl of
        Some p \<Rightarrow> (p, w)
      | None \<Rightarrow>
          (case fetchCall ForScript scriptUrl credentials w of
             (p, w1) \<Rightarrow>
               (p, w1\<lparr>scriptCache := (scriptCache w1)(scriptUrl \<mapsto> p),
                       catchers := catchers w1 @ [p]\<rparr>)))"

text \<open>
  Modelled from the spec: the idle scheduler \<^verbatim>\<open>requestIdleCallback\<close> of \<^verbatim>\<open>./utils\<close>, which
  is not defined in \<^verbatim>\<open>src/index.js\<close>. The spec gives it as
  \<^verbatim>\<open>runWhenIdle(callback) -> void\<close>, running the callback later, when otherwise idle: the
  callback is queued and nothing of it runs in the caller's stack.
\<close>

definition requestIdleCallback :: "idleTask \<Rightarrow> 'g world \<Rightarrow> 'g world" where
  "requestIdleCallback task w = w\<lparr>idleQueue := idleQueue w @ [task]\<rparr>"

text \<open>
  The callback of \<^verbatim>\<open>scripts.map\<close>, lines 142 to 167. For an async descriptor the content
  promise is made pending and its executor hands
  \<^verbatim>\<open>() => fetchScript(src, fetchOpts).then(resolve, reject)\<close> to the idle scheduler.
\<close>

definition resolveScript :: "'g utils \<Rightarrow> script \<Rightarrow> 'g world \<Rightarrow> item \<times> 'g world" where
  "resolveScript u scr w =
     (case scr of
        Str s \<Rightarrow>
          if isInlineCode s then (Val (getInlineCode u s), w)
          else (case fetchScript s False w of (p, w1) \<Rightarrow> (Prom p, w1))
      | Obj i loc asy cross \<Rightarrow>
          if asy then
            (let content = length (promises w)
             in (Handle loc content,
                 requestIdleCallback (IdleFetch loc cross content)
                   (w\<lparr>promises := promises w @ [Pending]\<rparr>)))
          else (case fetchScript loc cross w of (p, w1) \<Rightarrow> (Prom p, w1)))"

definition getExternalScripts :: "'g utils \<Rightarrow> script list \<Rightarrow> 'g world \<Rightarrow> item list \<times> 'g world" where
  "getExternalScripts u scripts w = mapState (resolveScript u) scripts w"

text \<open>
  The state of \<^verbatim>\<open>Promise.all(items)\<close>, called when \<open>called\<close> promises had been settled,
  as seen in a later world: \<open>None\<close> while pending. A handle is a plain value and is never
  waited on. The promise is fulfilled when every item is; it is rejected with the rejection
  that reaches it first: of the items already rejected at the call, the first in list order,
  and otherwise the item rejected first in time.
\<close>

definition itemState :: "string pstate list \<Rightarrow> item \<Rightarrow> scriptText pstate" where
  "itemState h it =
     (case it of
        Val t \<Rightarrow> Fulfilled (Text t)
      | Handle loc content \<Rightarrow> Fulfilled (AsyncHandle loc content)
      | Prom p \<Rightarrow>
          (if p < length h then
             (case h ! p of Pending \<Rightarrow> Pending | Fulfilled t \<Rightarrow> Fulfilled (Text t)
              | Rejected e \<Rightarrow> Rejected e)
           else Pending))"

fun collect :: "string pstate list \<Rightarrow> item list \<Rightarrow> scriptText list option" where
  "collect h [] = Some []"
| "collect h (it # rest) =
     (case itemState h it of
        Fulfilled x \<Rightarrow> (case collect h rest of None \<Rightarrow> None | Some xs \<Rightarrow> Some (x # xs))
      | Pending \<Rightarrow> None
      | Rejected e \<Rightarrow> None)"

definition rejection :: "string pstate list \<Rightarrow> item \<Rightarrow> exn option" where
  "rejection h it = (case itemState h it of Rejected e \<Rightarrow> Some e | other \<Rightarrow> None)"

definition promiseAll :: "nat \<Rightarrow> item list \<Rightarrow> 'g world \<Rightarrow> (exn + scriptText list) option" where
  "promiseAll called items w =
     (let late = drop called (settleOrder w);
          atCall = List.map_filter
                     (\<lambda>it. case it of
                             Prom p \<Rightarrow> if p \<in> set late then None else rejection (promises w) it
                           | other \<Rightarrow> None) items;
          after = List.map_filter
                    (\<lambda>p. if Prom p \<in> set items then rejection (promises w) (Prom p) else None)
                    late
      in case atCall @ after of
           e # es \<Rightarrow> Some (Inl e)
         | [] \<Rightarrow> (case collect (promises w) items of
                    None \<Rightarrow> None
                  | Some xs \<Rightarrow> Some (Inr xs)))"

section \<open>What happens between the loader's own steps\<close>

text \<open>The network settles the fetch chain at \<open>p\<close>; a rejected script chain calls the error callback once.\<close>

definition settleFetch :: "nat \<Rightarrow> exn + string \<Rightarrow> 'g world \<Rightarrow> 'g world" where
  "settleFetch p outcome w =
     (if p < length (promises w) \<and> promises w ! p = Pending then
        (case outcome of
           Inr t \<Rightarrow> w\<lparr>promises := (promises w)[p := Fulfilled t],
                        settleOrder := settleOrder w @ [p]\<rparr>
         | Inl e \<Rightarrow>
             w\<lparr>promises := (promises w)[p := Rejected e],
               settleOrder := settleOrder w @ [p],
               errorCalls := (if p \<in> set (catchers w) then errorCalls w @ [p] else errorCalls w)\<rparr>)
      else w)"

text \<open>The first idle callback runs: \<^verbatim>\<open>fetchScript(src, fetchOpts).then(resolve, reject)\<close>.\<close>

definition runIdle :: "'g world \<Rightarrow> 'g world" where
  "runIdle w =
     (case idleQueue w of
        [] \<Rightarrow> w
      | IdleFetch loc cross content # rest \<Rightarrow>
          (case fetchScript loc cross (w\<lparr>idleQueue := rest\<rparr>) of
             (p, w1) \<Rightarrow> w1\<lparr>links := links w1 @ [(p, content)]\<rparr>))"

text \<open>A settled fetch chain settles the content promises linked to it.\<close>

definition propagateOne :: "'g world \<Rightarrow> nat \<times> nat \<Rightarrow> 'g world" where
  "propagateOne w l =
     (case l of (p, content) \<Rightarrow>
        if p < length (promises w) \<and> promises w ! p \<noteq> Pending
           \<and> content < length (promises w) \<and> promises w ! content = Pending
        then w\<lparr>promises := (promises w)[content := promises w ! p],
               settleOrder := settleOrder w @ [content]\<rparr>
        else w)"

definition propagate :: "'g world \<Rightarrow> 'g world" where
  "propagate w = foldl propagateOne w (links w)"

text \<open>
  The reaction registered by \<^verbatim>\<open>exec\<close> on an async handle, lines 261 to 265:
  \<^verbatim>\<open>content.then(text => geval(inlineScript.src, text)).catch(e => throwNonBlockingError(...))\<close>.
  It does nothing while the content is pending and runs once when it is settled.
\<close>

definition reactOne :: "'g utils \<Rightarrow> 'g world \<Rightarrow> nat \<times> string \<times> 'g ctx \<Rightarrow> 'g world" where
  "reactOne u w r =
     (case r of (content, loc, c) \<Rightarrow>
        (case (if content < length (promises w) then promises w ! content else Pending) of
           Pending \<Rightarrow> w\<lparr>reactions := reactions w @ [r]\<rparr>
         | Fulfilled downloadedScriptText \<Rightarrow>
             (case geval u c (Str loc) downloadedScriptText w of
                (Some e, w1) \<Rightarrow> throwNonBlockingError e (asyncMsg loc) w1
              | (None, w1) \<Rightarrow> w1)
         | Rejected e \<Rightarrow> throwNonBlockingError e (asyncMsg loc) w))"

definition react :: "'g utils \<Rightarrow> 'g world \<Rightarrow> 'g world" where
  "react u w = foldl (reactOne u) (w\<lparr>reactions := []\<rparr>) (reactions w)"

datatype event =
    ReqStyles "string list"
  | ReqScripts "script list"
  | Settle nat "exn + string"
  | Idle
  | Propagate
  | React
  | Timer

fun step :: "'g utils \<Rightarrow> event \<Rightarrow> 'g world \<Rightarrow> 'g world" where
  "step u (ReqStyles styles) w = snd (getExternalStyleSheets u styles w)"
| "step u (ReqScripts scripts) w = snd (getExternalScripts u scripts w)"
| "step u (Settle p outcome) w = settleFetch p outcome w"
| "step u Idle w = runIdle w"
| "step u Propagate w = propagate w"
| "step u React w = react u w"
| "step u Timer w = fireTimer w"

fun run :: "'g utils \<Rightarrow> event list \<Rightarrow> 'g world \<Rightarrow> 'g world" where
  "run u [] w = w"
| "run u (ev # evs) w = run u evs (step u ev w)"

section \<open>execScripts\<close>

text \<open>
  \<^verbatim>\<open>execScripts(entry, scripts, proxy, opts)\<close>, lines 194 to 294, with \<open>c\<close> the destructured
  options. The scripts are resolved in the caller's stack; \<open>evs\<close> is what happens until the
  callback of \<^verbatim>\<open>then\<close> is looked at. The result is the state of the returned promise at
  that point: pending while \<^verbatim>\<open>Promise.all\<close> is, rejected as it is, and otherwise the state
  of the promise of line 292, which the returned promise adopts.
\<close>

definition execScripts ::
  "'g utils \<Rightarrow> 'g ctx \<Rightarrow> script option \<Rightarrow> script list \<Rightarrow> event list \<Rightarrow> 'g world
     \<Rightarrow> jsval pstate \<times> 'g world" where
  "execScripts u c entry scripts evs w =
     (case getExternalScripts u scripts w of
        (items, w1) \<Rightarrow>
          (let w2 = run u evs w1
           in case promiseAll (length (settleOrder w1)) items w2 of
                None \<Rightarrow> (Pending, w2)
              | Some (Inl e) \<Rightarrow> (Rejected e, w2)
              | Some (Inr scriptsText) \<Rightarrow>
                  (case runScripts u c entry scripts scriptsText w2 of
                     (pid, w3) \<Rightarrow> (results w3 ! pid, w3))))"

section \<open>The facade\<close>

text \<open>
  The options a caller gives to a handle's \<^verbatim>\<open>execScripts(proxy, strictGlobal, opts)\<close>; a
  field is \<open>None\<close> when absent. The handle calls the exported function with
  \<^verbatim>\<open>{fetch, strictGlobal, ...opts}\<close>, so a field of \<open>opts\<close> wins over the argument, and the
  exported function fills in its defaults.
\<close>

record 'g execOpts =
  optStrictGlobal :: "bool option"
  optScopedGlobalVariables :: "string list option"
  optSuccess :: "(jsval \<Rightarrow> 'g store \<Rightarrow> exn option \<times> 'g store) option"
  optBeforeExec :: "(string \<Rightarrow> script \<Rightarrow> 'g store \<Rightarrow> (exn + string option) \<times> 'g store) option"
  optAfterExec :: "(string \<Rightarrow> script \<Rightarrow> 'g store \<Rightarrow> exn option \<times> 'g store) option"

definition mkCtx :: "nat option \<Rightarrow> bool \<Rightarrow> 'g execOpts \<Rightarrow> 'g ctx" where
  "mkCtx prox strictArg opts =
     \<lparr>proxy = (case prox of None \<Rightarrow> globalWindow | Some a \<Rightarrow> a),
      strictGlobal = (case optStrictGlobal opts of None \<Rightarrow> strictArg | Some b \<Rightarrow> b),
      scopedGlobalVariables = (case optScopedGlobalVariables opts of None \<Rightarrow> [] | Some vs \<Rightarrow> vs),
      success = optSuccess opts,
      beforeExec = (case optBeforeExec opts of None \<Rightarrow> (\<lambda>code scr s. (Inr None, s)) | Some f \<Rightarrow> f),
      afterExec = (case optAfterExec opts of None \<Rightarrow> (\<lambda>code scr s. (None, s)) | Some f \<Rightarrow> f)\<rparr>"

text \<open>
  The \<^verbatim>\<open>execScripts\<close> of the handle made by \<^verbatim>\<open>importHTML\<close>, lines 333 to 342; \<open>entry\<close>
  and \<open>scripts\<close> come from the template parser. \<^verbatim>\<open>Promise.resolve()\<close> is fulfilled with
  \<^verbatim>\<open>undefined\<close>.
\<close>

definition htmlExecScripts ::
  "'g utils \<Rightarrow> script option \<Rightarrow> script list \<Rightarrow> nat option \<Rightarrow> bool \<Rightarrow> 'g execOpts \<Rightarrow> event list
     \<Rightarrow> 'g world \<Rightarrow> jsval pstate \<times> 'g world" where
  "htmlExecScripts u entry scripts prox strictArg opts evs w =
     (if length scripts = 0 then (Fulfilled Undefined, w)
      else execScripts u (mkCtx prox strictArg opts) entry scripts evs w)"

text \<open>
  The \<^verbatim>\<open>execScripts\<close> of the handle made by \<^verbatim>\<open>importEntry\<close> from a config, lines 387 to
  396. The scripts of a config are strings, as its declared type
  \<^verbatim>\<open>{ scripts?: string[]; styles?: string[]; html?: string }\<close> says.
\<close>

definition configEntry :: "string list \<Rightarrow> string" where
  "configEntry scripts = scripts ! (length scripts - 1)"

definition configExecScripts ::
  "'g utils \<Rightarrow> string list \<Rightarrow> nat option \<Rightarrow> bool \<Rightarrow> 'g execOpts \<Rightarrow> event list
     \<Rightarrow> 'g world \<Rightarrow> jsval pstate \<times> 'g world" where
  "configExecScripts u scripts prox strictArg opts evs w =
     (if length scripts = 0 then (Fulfilled Undefined, w)
      else execScripts u (mkCtx prox strictArg opts) (Some (Str (configEntry scripts)))
             (map Str scripts) evs w)"

text \<open>
  The part of \<^verbatim>\<open>importHTML(url, opts)\<close> that runs in the caller's stack, line 321: the
  cached promise of the handle, or a fetch of the document and a new promise.
\<close>

definition importHTML :: "string \<Rightarrow> 'g world \<Rightarrow> nat \<times> 'g world" where
  "importHTML url w =
     (case embedHTMLCache w url of
        Some h \<Rightarrow> (h, w)
      | None \<Rightarrow>
          (let h = handlePromises w
           in (h, w\<lparr>embedHTMLCache := (embedHTMLCache w)(url \<mapsto> h),
                     handlePromises := Suc h,
                     fetchLog := fetchLog w @ [(ForHTML, url, False)]\<rparr>)))"

text \<open>
  The argument of \<^verbatim>\<open>importEntry\<close>: a location, or a config object whose \<^verbatim>\<open>scripts\<close> and
  \<^verbatim>\<open>styles\<close> are each absent, an array, or some other value.
\<close>

datatype field = FUndefined | FArray "string list" | FOther

record config =
  cfgScripts :: field
  cfgStyles :: field
  cfgHtml :: "string option"

datatype entryArg = EntryUrl string | EntryConfig config

fun isArray :: "field \<Rightarrow> bool" where
  "isArray (FArray xs) = True"
| "isArray FUndefined = False"
| "isArray FOther = False"

text \<open>
  What \<^verbatim>\<open>importEntry\<close> returns in the caller's stack: the promise of \<^verbatim>\<open>importHTML\<close>, or,
  for a config, the template with its placeholders, the style promises that
  \<^verbatim>\<open>getEmbedHTML\<close> waits for, and the scripts and styles the handle's functions close over.
\<close>

datatype importResult =
    HtmlHandle nat
  | ConfigHandle string "item list" "string list" "string list"

definition getHTMLWithStylePlaceholder :: "'g utils \<Rightarrow> string list \<Rightarrow> string \<Rightarrow> string" where
  "getHTMLWithStylePlaceholder u styles tpl =
     foldr (\<lambda>styleSrc html. genLinkReplaceSymbol u styleSrc @ html) styles tpl"

definition getHTMLWithScriptPlaceholder :: "'g utils \<Rightarrow> string list \<Rightarrow> string \<Rightarrow> string" where
  "getHTMLWithScriptPlaceholder u scripts tpl =
     foldl (\<lambda>html scriptSrc. html @ genScriptReplaceSymbol u scriptSrc) tpl scripts"

text \<open>
  \<^verbatim>\<open>importEntry(entry, opts)\<close>, lines 352 to 402; \<open>getTemplate\<close> is the option of that
  name. A field that is neither absent nor an array reaches \<^verbatim>\<open>reduceRight\<close> or
  \<^verbatim>\<open>reduce\<close>, which it does not have: a TypeError.
\<close>

definition importEntry ::
  "'g utils \<Rightarrow> (string \<Rightarrow> string) \<Rightarrow> entryArg \<Rightarrow> 'g world \<Rightarrow> (exn + importResult) \<times> 'g world" where
  "importEntry u getTemplate entry w =
     (case entry of
        EntryUrl url \<Rightarrow> (case importHTML url w of (h, w1) \<Rightarrow> (Inr (HtmlHandle h), w1))
      | EntryConfig cfg \<Rightarrow>
          if isArray (cfgScripts cfg) \<or> isArray (cfgStyles cfg) then
            (case (cfgStyles cfg, cfgScripts cfg) of
               (FOther, sc) \<Rightarrow> (Inl (TypeError ''styles.reduceRight is not a function''), w)
             | (st, FOther) \<Rightarrow> (Inl (TypeError ''scripts.reduce is not a function''), w)
             | (st, sc) \<Rightarrow>
                 (let scripts = (case sc of FArray xs \<Rightarrow> xs | other \<Rightarrow> []);
                      styles = (case st of FArray xs \<Rightarrow> xs | other \<Rightarrow> []);
                      html = (case cfgHtml cfg of None \<Rightarrow> [] | Some h \<Rightarrow> h);
                      tpl = getTemplate (getHTMLWithScriptPlaceholder u scripts
                                           (getHTMLWithStylePlaceholder u styles html))
                  in case getExternalStyleSheets u styles w of
                       (items, w1) \<Rightarrow> (Inr (ConfigHandle tpl items scripts styles), w1)))
          else (Inl (SyntaxError ''entry scripts or styles should be array!''), w))"

section \<open>Counting fetches\<close>

text \<open>How often the fetch capability was called for a location on behalf of one cache.\<close>

definition fetchCount :: "origin \<Rightarrow> string \<Rightarrow> 'g world \<Rightarrow> nat" where
  "fetchCount org loc w = length (filter (\<lambda>(og, l, c). og = org \<and> l = loc) (fetchLog w))"

text \<open>
  The invariant of the style and script caches: a location was fetched for a cache at most
  once, and not at all while that cache has no entry for it.
\<close>

definition cachesOk :: "'g world \<Rightarrow> bool" where
  "cachesOk w = (\<forall>L. fetchCount ForScript L w \<le> (if scriptCache w L = None then 0 else 1)
                   \<and> fetchCount ForStyle L w \<le> (if styleCache w L = None then 0 else 1))"

section \<open>A small instance\<close>

text \<open>
  Concrete collaborators for the examples. The evaluator stands for three scripts, told apart
  by their location: one throws, one sets the property \<^verbatim>\<open>lib\<close> of the sandbox (found, as
  generated code finds it, under \<^verbatim>\<open>window.proxy\<close>) to the number 0, one sets it to an
  object; any other code does nothing. The diff reports \<^verbatim>\<open>lib\<close> once it is present.
\<close>

definition emptyStore :: "unit store" where
  "emptyStore = \<lparr>objs = (\<lambda>a p. None), hidden = ()\<rparr>"

definition emptyWorld :: "unit world" where
  "emptyWorld =
     \<lparr>js = emptyStore, styleCache = (\<lambda>l. None), scriptCache = (\<lambda>l. None),
      embedHTMLCache = (\<lambda>l. None), promises = [], results = [], handlePromises = 0,
      idleQueue = [], links = [], reactions = [], catchers = [], errorCalls = [], timers = [],
      console = [], hostErrors = [], settleOrder = [], fetchLog = [], issued = [],
      started = [], evaluated = [], delivered = []\<rparr>"

definition setLib :: "jsval \<Rightarrow> unit store \<Rightarrow> unit store" where
  "setLib v s = (case getProp globalWindow ''proxy'' s of JRef a \<Rightarrow> setProp a ''lib'' v s | other \<Rightarrow> s)"

definition demoEval :: "script \<Rightarrow> string \<Rightarrow> unit store \<Rightarrow> exn option \<times> unit store" where
  "demoEval scriptSrc code s =
     (if scriptSrc = Str ''http://x/throw.js'' then (Some (Thrown ''boom''), s)
      else if scriptSrc = Str ''http://x/zero.js'' then (None, setLib (JNum 0) s)
      else if scriptSrc = Str ''http://x/lib.js'' then (None, setLib (JRef 9) s)
      else (None, s))"

definition demoUtils :: "unit utils" where
  "demoUtils =
     \<lparr>evalCode = demoEval,
      noteGlobalProps = (\<lambda>a s. s),
      getGlobalProp = (\<lambda>a s. if objs s a ''lib'' = None then None else Some ''lib''),
      getInlineCode = (\<lambda>markup. markup),
      genLinkReplaceSymbol = (\<lambda>l. ''<!-- link '' @ l @ '' -->''),
      genScriptReplaceSymbol = (\<lambda>l. ''<!-- script '' @ l @ '' -->'')\<rparr>"

definition noOpts :: "unit execOpts" where
  "noOpts =
     \<lparr>optStrictGlobal = None, optScopedGlobalVariables = None, optSuccess = None,
      optBeforeExec = None, optAfterExec = None\<rparr>"

definition demoCtx :: "nat \<Rightarrow> unit ctx" where
  "demoCtx a = mkCtx (Some a) False noOpts"

section \<open>The generated code\<close>

lemma getExecutableScript_store:
  "snd (getExecutableScript (Str loc) t prox strict scoped s)
     = setProp globalWindow ''proxy'' (JRef prox) s"
  by (simp add: getExecutableScript_def Let_def)

lemma getProp_setProp_same: "getProp a p (setProp a p v s) = v"
  by (simp add: getProp_def setProp_def)

lemma objs_setProp_other: "b \<noteq> a \<Longrightarrow> objs (setProp a p v s) b = objs s b"
  by (simp add: setProp_def)

text \<open>
  Claim C7. In non-strict-global mode the generated code is an immediately invoked function
  expression with exactly the three formal parameters \<^verbatim>\<open>window\<close>, \<^verbatim>\<open>self\<close> and
  \<^verbatim>\<open>globalThis\<close>, each given \<^verbatim>\<open>window.proxy\<close>, which holds the sandbox once the code has
  been generated; the script text is the function body as it stands, with no \<^verbatim>\<open>with\<close>
  block around it, so every other free variable is looked up in the real global environment;
  the list of scoped variables plays no part. The body ends with the annotation
  \<^verbatim>\<open>//# sourceURL=\<close> naming the location, left out exactly when the descriptor is inline
  (starts with \<^verbatim>\<open><\<close>). In every mode the code is the script text, a newline and that
  annotation between a prefix and a suffix that do not depend on the script.
\<close>

theorem getExecutableScript_nonstrict_rebinds:
  "getExecutableScript (Str loc) scriptText prox False scoped s =
     (Inr (iife [''window'', ''self'', ''globalThis'']
             ('';'' @ scriptText @ newline
                @ (if isInlineCode loc then [] else sourceUrlAnnotation loc))
             ''window.proxy'' [''window.proxy'', ''window.proxy'', ''window.proxy'']),
      setProp globalWindow ''proxy'' (JRef prox) s)
   \<and> getProp globalWindow ''proxy''
         (snd (getExecutableScript (Str loc) scriptText prox False scoped s)) = JRef prox
   \<and> (\<exists>pre post. \<forall>loc' text' prox' s'.
          fst (getExecutableScript (Str loc') text' prox' strict scoped s') =
            Inr (pre @ text' @ newline
                   @ (if isInlineCode loc' then [] else sourceUrlAnnotation loc') @ post))"
proof (intro conjI)
  show "getExecutableScript (Str loc) scriptText prox False scoped s =
     (Inr (iife [''window'', ''self'', ''globalThis'']
             ('';'' @ scriptText @ newline
                @ (if isInlineCode loc then [] else sourceUrlAnnotation loc))
             ''window.proxy'' [''window.proxy'', ''window.proxy'', ''window.proxy'']),
      setProp globalWindow ''proxy'' (JRef prox) s)"
    by (simp add: getExecutableScript_def iife_def sourceUrlAnnotation_def Let_def)
  show "getProp globalWindow ''proxy''
         (snd (getExecutableScript (Str loc) scriptText prox False scoped s)) = JRef prox"
    by (simp add: getExecutableScript_store getProp_setProp_same)
  show "\<exists>pre post. \<forall>loc' text' prox' s'.
          fst (getExecutableScript (Str loc') text' prox' strict scoped s') =
            Inr (pre @ text' @ newline
                   @ (if isInlineCode loc' then [] else sourceUrlAnnotation loc') @ post)"
  proof (cases strict)
    case False
    then show ?thesis
      by (intro exI[of _ "'';(function(window, self, globalThis){;''"]
                exI[of _ "''}).bind(window.proxy)(window.proxy, window.proxy, window.proxy);''"])
         (simp add: getExecutableScript_def sourceUrlAnnotation_def Let_def)
  next
    case True
    show ?thesis
    proof (cases "scoped = []")
      case True
      with \<open>strict\<close> show ?thesis
        by (intro exI[of _ "'';(function(window, self, globalThis){with(window){;''"]
                  exI[of _ "''}}).bind(window.proxy)(window.proxy, window.proxy, window.proxy);''"])
           (simp add: getExecutableScript_def sourceUrlAnnotation_def Let_def)
    next
      case False
      with \<open>strict\<close> show ?thesis
        by (intro exI[of _ "'';(function(){with(this){'' @ ''const {'' @ join '','' scoped @ ''}=this;''"]
                  exI[of _ "''}}).bind(window.proxy)();''"])
           (simp add: getExecutableScript_def sourceUrlAnnotation_def Let_def)
    qed
  qed
qed

theorem getExecutableScript_nonstrict_rebinds_witness:
  "fst (getExecutableScript (Str ''http://x/a.js'') ''var a = 1;'' 7 False [''document''] emptyStore)
     = Inr '';(function(window, self, globalThis){;var a = 1;\<newline>//# sourceURL=http://x/a.js\<newline>}).bind(window.proxy)(window.proxy, window.proxy, window.proxy);''
   \<and> getProp globalWindow ''proxy''
         (snd (getExecutableScript (Str ''http://x/a.js'') ''var a = 1;'' 7 False [''document''] emptyStore))
       = JRef 7"
proof -
  note t = getExecutableScript_nonstrict_rebinds
          [of "''http://x/a.js''" "''var a = 1;''" 7 "[''document'']" emptyStore False]
  from t have a: "getExecutableScript (Str ''http://x/a.js'') ''var a = 1;'' 7 False [''document''] emptyStore =
     (Inr (iife [''window'', ''self'', ''globalThis'']
             ('';'' @ ''var a = 1;'' @ newline
                @ (if isInlineCode ''http://x/a.js'' then [] else sourceUrlAnnotation ''http://x/a.js''))
             ''window.proxy'' [''window.proxy'', ''window.proxy'', ''window.proxy'']),
      setProp globalWindow ''proxy'' (JRef 7) emptyStore)"
    by (rule conjunct1)
  from t have b: "getProp globalWindow ''proxy''
         (snd (getExecutableScript (Str ''http://x/a.js'') ''var a = 1;'' 7 False [''document''] emptyStore))
       = JRef 7"
    by (elim conjE)
  have c: "iife [''window'', ''self'', ''globalThis'']
             ('';'' @ ''var a = 1;'' @ newline
                @ (if isInlineCode ''http://x/a.js'' then [] else sourceUrlAnnotation ''http://x/a.js''))
             ''window.proxy'' [''window.proxy'', ''window.proxy'', ''window.proxy'']
        = '';(function(window, self, globalThis){;var a = 1;\<newline>//# sourceURL=http://x/a.js\<newline>}).bind(window.proxy)(window.proxy, window.proxy, window.proxy);''"
    by (simp add: iife_def sourceUrlAnnotation_def isInlineCode_def newline_def)
  show ?thesis using b by (simp only: a c fst_conv simp_thms)
qed



section \<open>The write to the global window\<close>

lemma geval_evalCode_cong:
  assumes "\<forall>src code s. getProp globalWindow ''proxy'' s = JRef (proxy c)
             \<longrightarrow> evalCode u src code s = ec src code s"
  shows "geval u c scriptSrc t w = geval (u\<lparr>evalCode := ec\<rparr>) c scriptSrc t w"
  using assms
  by (cases scriptSrc)
     (auto simp add: geval_def onJs_def getExecutableScript_def Let_def setProp_def getProp_def
           split: prod.splits sum.splits option.splits)

lemma exportsOf_evalCode: "exportsOf (u\<lparr>evalCode := ec\<rparr>) c s = exportsOf u c s"
  by (simp add: exportsOf_def)

lemma exec_evalCode_cong:
  assumes "\<forall>src code s. getProp globalWindow ''proxy'' s = JRef (proxy c)
             \<longrightarrow> evalCode u src code s = ec src code s"
  shows "exec u c entry pid scr txt w = exec (u\<lparr>evalCode := ec\<rparr>) c entry pid scr txt w"
  by (simp add: exec_def exportsOf_evalCode geval_evalCode_cong[OF assms, symmetric]
        cong: scriptText.case_cong if_cong prod.case_cong option.case_cong)

lemma reactOne_evalCode_cong:
  assumes "\<forall>src code s. getProp globalWindow ''proxy'' s = JRef (proxy c)
             \<longrightarrow> evalCode u src code s = ec src code s"
  shows "reactOne u w (content, loc, c) = reactOne (u\<lparr>evalCode := ec\<rparr>) w (content, loc, c)"
  by (simp add: reactOne_def geval_evalCode_cong[OF assms, symmetric] cong: pstate.case_cong)

text \<open>
  Claim C10. Generating the code of a script writes the caller's sandbox to the property
  \<^verbatim>\<open>proxy\<close> of the real global window, in every mode, and changes no other object and no
  other property. Every evaluation of script code, for the entry, for any other script and
  for an async script, happens after that write: replacing the evaluator by one that agrees
  with it only on stores where \<^verbatim>\<open>window.proxy\<close> is the sandbox changes nothing. The property
  is shared: when code is generated for sandbox \<open>p1\<close> and then for sandbox \<open>p2\<close> the global
  property holds \<open>p2\<close>, and generating for \<open>p1\<close> again overwrites it once more.
\<close>

theorem script_execution_writes_global_proxy:
  assumes "\<forall>src code s. getProp globalWindow ''proxy'' s = JRef (proxy c)
             \<longrightarrow> evalCode u src code s = ec src code s"
  shows "exec u c entry pid scr txt w = exec (u\<lparr>evalCode := ec\<rparr>) c entry pid scr txt w
       \<and> reactOne u w (content, loc, c) = reactOne (u\<lparr>evalCode := ec\<rparr>) w (content, loc, c)
       \<and> snd (getExecutableScript (Str l1) t1 p1 strict1 scoped1 s)
           = setProp globalWindow ''proxy'' (JRef p1) s
       \<and> getProp globalWindow ''proxy''
             (snd (getExecutableScript (Str l2) t2 p2 strict2 scoped2
                (snd (getExecutableScript (Str l1) t1 p1 strict1 scoped1 s)))) = JRef p2
       \<and> getProp globalWindow ''proxy''
             (snd (getExecutableScript (Str l1) t1 p1 strict1 scoped1
                (snd (getExecutableScript (Str l2) t2 p2 strict2 scoped2
                   (snd (getExecutableScript (Str l1) t1 p1 strict1 scoped1 s)))))) = JRef p1
       \<and> (\<forall>a. a \<noteq> globalWindow \<longrightarrow>
             objs (snd (getExecutableScript (Str l1) t1 p1 strict1 scoped1 s)) a = objs s a)"
  using exec_evalCode_cong[OF assms] reactOne_evalCode_cong[OF assms]
  by (simp add: getExecutableScript_store getProp_setProp_same objs_setProp_other)

theorem script_execution_writes_global_proxy_witness:
  "exec demoUtils (demoCtx 7) None 0 (Str ''http://x/lib.js'') (Text ''lib = {}'') emptyWorld
       = exec (demoUtils\<lparr>evalCode := (\<lambda>src code s.
                  if getProp globalWindow ''proxy'' s = JRef 7 then demoEval src code s
                  else (Some (Thrown ''not reached''), s))\<rparr>)
           (demoCtx 7) None 0 (Str ''http://x/lib.js'') (Text ''lib = {}'') emptyWorld
   \<and> getProp globalWindow ''proxy''
         (snd (getExecutableScript (Str ''b.js'') ''2'' 8 True []
            (snd (getExecutableScript (Str ''a.js'') ''1'' 7 False [] emptyStore)))) = JRef 8"
proof -
  have h: "\<forall>src code s. getProp globalWindow ''proxy'' s = JRef (proxy (demoCtx 7))
       \<longrightarrow> evalCode demoUtils src code s
           = (if getProp globalWindow ''proxy'' s = JRef 7 then demoEval src code s
              else (Some (Thrown ''not reached''), s))"
    by (simp add: demoCtx_def mkCtx_def demoUtils_def)
  note t = script_execution_writes_global_proxy
            [OF h, of None 0 "Str ''http://x/lib.js''" "Text ''lib = {}''" emptyWorld
               0 "''x''" "''a.js''" "''1''" 7 False "[]" emptyStore "''b.js''" "''2''" 8 True "[]"]
  from t have a: "exec demoUtils (demoCtx 7) None 0 (Str ''http://x/lib.js'') (Text ''lib = {}'') emptyWorld
       = exec (demoUtils\<lparr>evalCode := (\<lambda>src code s.
                  if getProp globalWindow ''proxy'' s = JRef 7 then demoEval src code s
                  else (Some (Thrown ''not reached''), s))\<rparr>)
           (demoCtx 7) None 0 (Str ''http://x/lib.js'') (Text ''lib = {}'') emptyWorld"
    by (rule conjunct1)
  from t have b: "getProp globalWindow ''proxy''
         (snd (getExecutableScript (Str ''b.js'') ''2'' 8 True []
            (snd (getExecutableScript (Str ''a.js'') ''1'' 7 False [] emptyStore)))) = JRef 8"
    by (elim conjE)
  show ?thesis using a b by (intro conjI)
qed

section \<open>Properties of the facade\<close>

text \<open>
  Claim C9. Given a config object in which neither \<^verbatim>\<open>scripts\<close> nor \<^verbatim>\<open>styles\<close> is an array,
  \<^verbatim>\<open>importEntry\<close> throws the SyntaxError in the caller's stack and leaves the world as it
  was: nothing has been fetched or cached, and the template function has not been applied.
\<close>

theorem importEntry_config_error:
  assumes "\<not> isArray (cfgScripts cfg)" and "\<not> isArray (cfgStyles cfg)"
  shows "importEntry u getTemplate (EntryConfig cfg) w
           = (Inl (SyntaxError ''entry scripts or styles should be array!''), w)"
  using assms by (simp add: importEntry_def)

theorem importEntry_config_error_witness:
  "importEntry demoUtils (\<lambda>tpl. tpl)
     (EntryConfig \<lparr>cfgScripts = FUndefined, cfgStyles = FOther, cfgHtml = Some ''<div></div>''\<rparr>)
     emptyWorld
   = (Inl (SyntaxError ''entry scripts or styles should be array!''), emptyWorld)"
  using importEntry_config_error
          [of "\<lparr>cfgScripts = FUndefined, cfgStyles = FOther, cfgHtml = Some ''<div></div>''\<rparr>"
              demoUtils "\<lambda>tpl. tpl" emptyWorld]
  by simp

text \<open>
  Claim C8. A config whose \<^verbatim>\<open>scripts\<close> is an array (and whose \<^verbatim>\<open>styles\<close> is an array or
  absent) yields a handle that closes over that array, and with a non-empty array the
  handle's \<^verbatim>\<open>execScripts\<close> calls the exported function with the last element of the array
  as entry identifier.
\<close>

theorem config_entry_is_last_script:
  assumes "scripts \<noteq> []" and "cfgScripts cfg = FArray scripts" and "cfgStyles cfg \<noteq> FOther"
  shows "configExecScripts u scripts prox strictArg opts evs w
           = execScripts u (mkCtx prox strictArg opts) (Some (Str (last scripts))) (map Str scripts)
               evs w
       \<and> configEntry scripts = last scripts
       \<and> (\<exists>tpl items styles w1.
             importEntry u getTemplate (EntryConfig cfg) w0
               = (Inr (ConfigHandle tpl items scripts styles), w1))"
proof -
  have e: "configEntry scripts = last scripts"
    using assms(1) by (simp add: configEntry_def last_conv_nth)
  have i: "\<exists>tpl items styles w1.
             importEntry u getTemplate (EntryConfig cfg) w0
               = (Inr (ConfigHandle tpl items scripts styles), w1)"
    using assms(2,3)
    by (cases "cfgStyles cfg") (auto simp add: importEntry_def Let_def split: prod.splits)
  show ?thesis using assms(1) e i by (simp add: configExecScripts_def)
qed

theorem config_entry_is_last_script_witness:
  "configEntry [''http://x/a.js'', ''http://x/b.js''] = ''http://x/b.js''
   \<and> configExecScripts demoUtils [''http://x/a.js'', ''http://x/b.js''] None False noOpts [] emptyWorld
       = execScripts demoUtils (mkCtx None False noOpts) (Some (Str ''http://x/b.js''))
           [Str ''http://x/a.js'', Str ''http://x/b.js''] [] emptyWorld"
  using config_entry_is_last_script
          [of "[''http://x/a.js'', ''http://x/b.js'']"
              "\<lparr>cfgScripts = FArray [''http://x/a.js'', ''http://x/b.js''], cfgStyles = FArray [],
                cfgHtml = None\<rparr>"
              demoUtils None False noOpts "[]" emptyWorld "\<lambda>tpl. tpl" emptyWorld]
  by simp

text \<open>
  Claim C5, as stated, fails for the exported \<^verbatim>\<open>execScripts\<close>: with an empty list and no
  entry the scheduler never calls \<^verbatim>\<open>resolve\<close>, and the promise stays pending whatever
  happens afterwards.
\<close>

theorem execScripts_empty_pending:
  "fst (execScripts demoUtils (demoCtx 7) None [] [] emptyWorld) = Pending
   \<and> fst (execScripts demoUtils (demoCtx 7) None [] [Idle, Propagate, React, Timer] emptyWorld)
       = Pending"
  by (simp add: execScripts_def getExternalScripts_def runScripts_def Let_def emptyWorld_def
        runIdle_def propagate_def react_def fireTimer_def promiseAll_def map_filter_def)

lemma promiseAll_nil: "promiseAll called [] w = Some (Inr [])"
  by (simp add: promiseAll_def map_filter_def)

lemma execScripts_nil:
  "execScripts u c entry [] evs w =
     (Pending, (run u evs w)\<lparr>results := results (run u evs w) @ [Pending]\<rparr>)"
  by (simp add: execScripts_def getExternalScripts_def runScripts_def Let_def promiseAll_nil)

text \<open>
  Claim C5, amended. The \<^verbatim>\<open>execScripts\<close> of a loaded handle, from either facade, called
  with an empty script list is fulfilled at once with \<^verbatim>\<open>undefined\<close> and changes nothing:
  the fetch capability is not called. The exported \<^verbatim>\<open>execScripts\<close> called with an empty
  list resolves no script and calls the fetch capability for none.
\<close>

theorem execScripts_empty_list:
  "htmlExecScripts u entry [] prox strictArg opts evs w = (Fulfilled Undefined, w)
   \<and> configExecScripts u [] prox strictArg opts evs w = (Fulfilled Undefined, w)
   \<and> getExternalScripts u [] w = ([], w)
   \<and> fetchLog (snd (execScripts u c entry [] [] w)) = fetchLog w"
  by (simp add: htmlExecScripts_def configExecScripts_def getExternalScripts_def execScripts_nil)

theorem execScripts_empty_list_witness:
  "htmlExecScripts demoUtils None [] (Some 7) False noOpts [] emptyWorld
     = (Fulfilled Undefined, emptyWorld)
   \<and> fetchLog (snd (execScripts demoUtils (demoCtx 7) None [] [] emptyWorld)) = []"
  using execScripts_empty_list
          [of demoUtils None "Some 7" False noOpts "[]" emptyWorld "demoCtx 7"]
  by (simp add: emptyWorld_def)

section \<open>What one script execution leaves alone\<close>

lemma onJs_shape: "snd (onJs f w) = w\<lparr>js := js (snd (onJs f w))\<rparr>"
  by (simp add: onJs_def split: prod.splits)

lemma geval_shape:
  "snd (geval u c scr t w)
     = w\<lparr>js := js (snd (geval u c scr t w)), started := started w @ [(scr, t)],
         evaluated := evaluated (snd (geval u c scr t w))\<rparr>"
  by (simp add: geval_def Let_def onJs_def split: prod.splits sum.splits option.splits)

lemma geval_fields:
  "results (snd (geval u c scr t w)) = results w"
  "issued (snd (geval u c scr t w)) = issued w"
  "delivered (snd (geval u c scr t w)) = delivered w"
  "timers (snd (geval u c scr t w)) = timers w"
  "reactions (snd (geval u c scr t w)) = reactions w"
  "console (snd (geval u c scr t w)) = console w"
  "fetchLog (snd (geval u c scr t w)) = fetchLog w"
  "promises (snd (geval u c scr t w)) = promises w"
  "hostErrors (snd (geval u c scr t w)) = hostErrors w"
  by (subst geval_shape, simp)+



lemma settle_pending:
  "pid < length (results w) \<Longrightarrow> results w ! pid = Pending
     \<Longrightarrow> results (settle pid st w) = (results w)[pid := st]"
  by (simp add: settle_def)









lemma gevalD:
  "geval u c scr t w = (r, w') \<Longrightarrow>
     results w' = results w \<and> issued w' = issued w \<and> delivered w' = delivered w
     \<and> timers w' = timers w \<and> reactions w' = reactions w \<and> promises w' = promises w
     \<and> fetchLog w' = fetchLog w \<and> hostErrors w' = hostErrors w"
  using geval_fields[of u c scr t w] by simp




lemma exec_non_entry:
  assumes "\<not> strictEq scr entry" and "txt \<noteq> Undef"
  shows "fst (exec u c entry pid scr txt w) = None"
    and "results (snd (exec u c entry pid scr txt w)) = results w"
    and "delivered (snd (exec u c entry pid scr txt w)) = delivered w"
  using assms
  by (auto simp add: exec_def throwNonBlockingError_def
        split: prod.splits option.splits scriptText.splits
        dest!: gevalD)




section \<open>The scheduler's path\<close>

declare schedule.simps [simp del]




lemma schedule_end:
  "length scripts \<le> i \<Longrightarrow> schedule u c entry scripts scriptsText pid i w = (None, w)"
  by (subst schedule.simps) simp

lemma schedule_non_entry_step:
  assumes "i < length scripts" and "\<not> strictEq (scripts ! i) entry"
    and "nthText scriptsText i \<noteq> Undef"
  shows "schedule u c entry scripts scriptsText pid i w =
           (if falsy entry \<and> i = length scripts - 1
            then resolvePromise c pid Undefined
                   (snd (exec u c entry pid (scripts ! i) (nthText scriptsText i)
                           (w\<lparr>issued := issued w @ [i]\<rparr>)))
            else schedule u c entry scripts scriptsText pid (i + 1)
                   (snd (exec u c entry pid (scripts ! i) (nthText scriptsText i)
                           (w\<lparr>issued := issued w @ [i]\<rparr>))))"
proof -
  obtain r w1 where e: "exec u c entry pid (scripts ! i) (nthText scriptsText i)
                           (w\<lparr>issued := issued w @ [i]\<rparr>) = (r, w1)"
    by (cases "exec u c entry pid (scripts ! i) (nthText scriptsText i)
                           (w\<lparr>issued := issued w @ [i]\<rparr>)")
  have "r = None"
    using exec_non_entry(1)[OF assms(2,3), of u c pid "w\<lparr>issued := issued w @ [i]\<rparr>"] e
    by simp
  with e have e': "exec u c entry pid (scripts ! i) (nthText scriptsText i)
                           (w\<lparr>issued := issued w @ [i]\<rparr>) = (None, w1)"
    by simp
  show ?thesis
    by (subst schedule.simps) (simp only: assms(1) e' if_True prod.case option.case snd_conv)
qed

lemma schedule_skip:
  assumes "i \<le> j" and "j < length scripts"
    and "\<forall>m. i \<le> m \<and> m < j \<longrightarrow> \<not> strictEq (scripts ! m) entry \<and> nthText scriptsText m \<noteq> Undef"
  shows "schedule u c entry scripts scriptsText pid i (arrive u c entry scripts scriptsText pid i w)
       = schedule u c entry scripts scriptsText pid j (arrive u c entry scripts scriptsText pid j w)"
  using assms
proof (induction j rule: dec_induct)
  case base
  show ?case by simp
next
  case (step n)
  then have ih: "schedule u c entry scripts scriptsText pid i (arrive u c entry scripts scriptsText pid i w)
       = schedule u c entry scripts scriptsText pid n (arrive u c entry scripts scriptsText pid n w)"
    by simp
  from step have ne: "n < length scripts" "\<not> strictEq (scripts ! n) entry"
      "nthText scriptsText n \<noteq> Undef" and nl: "n \<noteq> length scripts - 1"
    by auto
  show ?case
    unfolding ih
    using nl by (subst schedule_non_entry_step[OF ne]) (simp add: Let_def)
qed

lemma schedule_tail:
  assumes "i < length scripts"
    and "\<forall>m. i \<le> m \<and> m < length scripts \<longrightarrow> \<not> strictEq (scripts ! m) entry \<and> nthText scriptsText m \<noteq> Undef"
  shows "schedule u c entry scripts scriptsText pid i (arrive u c entry scripts scriptsText pid i w)
       = (if falsy entry
          then resolvePromise c pid Undefined
                 (arrive u c entry scripts scriptsText pid (length scripts) w)
          else (None, arrive u c entry scripts scriptsText pid (length scripts) w))"
proof -
  define n where "n = length scripts - 1"
  with assms(1) have n: "i \<le> n" "n < length scripts" "Suc n = length scripts" by simp_all
  from assms(2) n have ne: "\<not> strictEq (scripts ! n) entry" "nthText scriptsText n \<noteq> Undef"
    by simp_all
  have "schedule u c entry scripts scriptsText pid i (arrive u c entry scripts scriptsText pid i w)
       = schedule u c entry scripts scriptsText pid n (arrive u c entry scripts scriptsText pid n w)"
    using assms(2) n by (intro schedule_skip) simp_all
  also have "\<dots> = (if falsy entry \<and> n = length scripts - 1
          then resolvePromise c pid Undefined
                 (arrive u c entry scripts scriptsText pid (Suc n) w)
          else schedule u c entry scripts scriptsText pid (n + 1)
                 (arrive u c entry scripts scriptsText pid (Suc n) w))"
    by (subst schedule_non_entry_step[OF n(2) ne]) (simp only: arrive.simps Let_def)
  also have "\<dots> = (if falsy entry
          then resolvePromise c pid Undefined
                 (arrive u c entry scripts scriptsText pid (Suc n) w)
          else (None, arrive u c entry scripts scriptsText pid (Suc n) w))"
  proof -
    have a: "(falsy entry \<and> n = length scripts - 1) = falsy entry"
      by (simp add: n_def)
    have b: "schedule u c entry scripts scriptsText pid (n + 1)
                 (arrive u c entry scripts scriptsText pid (Suc n) w)
             = (None, arrive u c entry scripts scriptsText pid (Suc n) w)"
      by (rule schedule_end) (simp add: n(3)[symmetric])
    show ?thesis by (simp only: a b)
  qed
  finally show ?thesis by (simp only: n(3))
qed

section \<open>The entry script\<close>





section \<open>From the resolved texts to the returned promise\<close>










section \<open>The entry script throws\<close>




section \<open>What the scheduler does to the promise and to the delivered values\<close>












section \<open>Scripts that are not the entry\<close>



lemma reactOne_rejected:
  assumes "content < length (promises w)" and "promises w ! content = Rejected x"
  shows "reactOne u w (content, loc, c) = throwNonBlockingError x (asyncMsg loc) w"
  using assms by (simp add: reactOne_def)












section \<open>What a whole run executes\<close>



















section \<open>The caches\<close>

lemma geval_caches:
  "fetchLog (snd (geval u c scr t w)) = fetchLog w"
  "styleCache (snd (geval u c scr t w)) = styleCache w"
  "scriptCache (snd (geval u c scr t w)) = scriptCache w"
  by (subst geval_shape, simp)+

lemma fetchCount_append:
  "fetchCount org loc (w\<lparr>fetchLog := fetchLog w @ [(o', l', c')]\<rparr>)
     = fetchCount org loc w + (if o' = org \<and> l' = loc then 1 else 0)"
  by (simp add: fetchCount_def)

lemma fetchCount_cong:
  "fetchLog w' = fetchLog w \<Longrightarrow> fetchCount org loc w' = fetchCount org loc w"
  by (simp add: fetchCount_def)

lemma fetchScript_effect:
  "fetchCount org L (snd (fetchScript loc cred w))
     = fetchCount org L w
       + (if scriptCache w loc = None \<and> org = ForScript \<and> L = loc then 1 else 0)"
  "scriptCache (snd (fetchScript loc cred w)) L
     = (if scriptCache w loc = None \<and> L = loc then Some (length (promises w))
        else scriptCache w L)"
  "styleCache (snd (fetchScript loc cred w)) = styleCache w"
  by (simp_all add: fetchScript_def fetchCall_def fetchCount_def split: option.splits)

lemma resolveStyle_effect:
  "fetchCount org L (snd (resolveStyle u loc w))
     = fetchCount org L w
       + (if \<not> isInlineCode loc \<and> styleCache w loc = None \<and> org = ForStyle \<and> L = loc
          then 1 else 0)"
  "styleCache (snd (resolveStyle u loc w)) L
     = (if \<not> isInlineCode loc \<and> styleCache w loc = None \<and> L = loc
        then Some (length (promises w)) else styleCache w L)"
  "scriptCache (snd (resolveStyle u loc w)) = scriptCache w"
  by (simp_all add: resolveStyle_def fetchCall_def fetchCount_def split: option.splits)

lemma fetchScript_inv: "cachesOk w \<Longrightarrow> cachesOk (snd (fetchScript loc cred w))"
  unfolding cachesOk_def
proof (intro allI)
  fix L
  assume "\<forall>L. fetchCount ForScript L w \<le> (if scriptCache w L = None then 0 else 1)
                   \<and> fetchCount ForStyle L w \<le> (if styleCache w L = None then 0 else 1)"
  then have a: "fetchCount ForScript L w \<le> (if scriptCache w L = None then 0 else 1)"
      "fetchCount ForStyle L w \<le> (if styleCache w L = None then 0 else 1)"
    by simp_all
  show "fetchCount ForScript L (snd (fetchScript loc cred w))
          \<le> (if scriptCache (snd (fetchScript loc cred w)) L = None then 0 else 1)
      \<and> fetchCount ForStyle L (snd (fetchScript loc cred w))
          \<le> (if styleCache (snd (fetchScript loc cred w)) L = None then 0 else 1)"
    using a by (auto simp add: fetchScript_effect split: if_splits)
qed

lemma resolveStyle_inv: "cachesOk w \<Longrightarrow> cachesOk (snd (resolveStyle u loc w))"
  unfolding cachesOk_def
proof (intro allI)
  fix L
  assume "\<forall>L. fetchCount ForScript L w \<le> (if scriptCache w L = None then 0 else 1)
                   \<and> fetchCount ForStyle L w \<le> (if styleCache w L = None then 0 else 1)"
  then have a: "fetchCount ForScript L w \<le> (if scriptCache w L = None then 0 else 1)"
      "fetchCount ForStyle L w \<le> (if styleCache w L = None then 0 else 1)"
    by simp_all
  show "fetchCount ForScript L (snd (resolveStyle u loc w))
          \<le> (if scriptCache (snd (resolveStyle u loc w)) L = None then 0 else 1)
      \<and> fetchCount ForStyle L (snd (resolveStyle u loc w))
          \<le> (if styleCache (snd (resolveStyle u loc w)) L = None then 0 else 1)"
    using a by (auto simp add: resolveStyle_effect split: if_splits)
qed


lemma cachesOk_cong:
  "fetchLog w' = fetchLog w \<Longrightarrow> scriptCache w' = scriptCache w \<Longrightarrow> styleCache w' = styleCache w
     \<Longrightarrow> cachesOk w' = cachesOk w"
  by (simp add: cachesOk_def fetchCount_def)

lemma resolveScript_inv: "cachesOk w \<Longrightarrow> cachesOk (snd (resolveScript u scr w))"
proof (cases scr)
  case (Str s)
  then show "cachesOk w \<Longrightarrow> cachesOk (snd (resolveScript u scr w))"
    using fetchScript_inv[of w s False]
    by (auto simp add: resolveScript_def split: prod.splits)
next
  case (Obj a loc asy cross)
  assume ok: "cachesOk w"
  show "cachesOk (snd (resolveScript u scr w))"
  proof (cases asy)
    case True
    have "cachesOk (requestIdleCallback (IdleFetch loc cross (length (promises w)))
                     (w\<lparr>promises := promises w @ [Pending]\<rparr>)) = cachesOk w"
      by (rule cachesOk_cong) (simp_all add: requestIdleCallback_def)
    with ok Obj True show ?thesis by (simp add: resolveScript_def Let_def)
  next
    case False
    with Obj ok show ?thesis
      using fetchScript_inv[of w loc cross]
      by (auto simp add: resolveScript_def split: prod.splits)
  qed
qed

lemma mapState_inv:
  assumes "\<And>x w. P w \<Longrightarrow> P (snd (f x w))"
  shows "P w \<Longrightarrow> P (snd (mapState f xs w))"
proof (induction xs arbitrary: w)
  case Nil
  then show ?case by simp
next
  case (Cons x xs)
  from assms[OF Cons.prems, of x] have "P (snd (f x w))" .
  from Cons.IH[OF this] show ?case
    by (auto split: prod.splits)
qed

lemma foldl_inv:
  assumes "\<And>w x. P w \<Longrightarrow> P (f w x)"
  shows "P w \<Longrightarrow> P (foldl f w xs)"
  by (induction xs arbitrary: w) (simp_all add: assms)

lemma settleFetch_inv: "cachesOk (settleFetch p outcome w) = cachesOk w"
  by (rule cachesOk_cong) (simp_all add: settleFetch_def split: sum.splits)

lemma runIdle_inv: "cachesOk w \<Longrightarrow> cachesOk (runIdle w)"
proof (cases "idleQueue w")
  case Nil
  then show "cachesOk w \<Longrightarrow> cachesOk (runIdle w)" by (simp add: runIdle_def)
next
  case (Cons task rest)
  assume ok: "cachesOk w"
  obtain loc cross content where t: "task = IdleFetch loc cross content" by (cases task)
  have "cachesOk (w\<lparr>idleQueue := rest\<rparr>) = cachesOk w"
    by (rule cachesOk_cong) simp_all
  with ok have a: "cachesOk (snd (fetchScript loc cross (w\<lparr>idleQueue := rest\<rparr>)))"
    by (intro fetchScript_inv) simp
  have "cachesOk (runIdle w) = cachesOk (snd (fetchScript loc cross (w\<lparr>idleQueue := rest\<rparr>)))"
    using Cons t by (intro cachesOk_cong) (simp_all add: runIdle_def split: prod.splits)
  with a show "cachesOk (runIdle w)" by simp
qed

lemma propagateOne_inv: "cachesOk (propagateOne w l) = cachesOk w"
  by (rule cachesOk_cong) (simp_all add: propagateOne_def split: prod.splits)

lemma reactOne_inv: "cachesOk (reactOne u w r) = cachesOk w"
proof (rule cachesOk_cong)
  obtain content loc c where r: "r = (content, loc, c)" by (cases r)
  show "fetchLog (reactOne u w r) = fetchLog w"
    by (simp add: r reactOne_def throwNonBlockingError_def geval_caches
          split: pstate.splits prod.splits option.splits)
       (metis geval_caches(1) snd_conv)
  show "scriptCache (reactOne u w r) = scriptCache w"
    by (simp add: r reactOne_def throwNonBlockingError_def geval_caches
          split: pstate.splits prod.splits option.splits)
       (metis geval_caches(3) snd_conv)
  show "styleCache (reactOne u w r) = styleCache w"
    by (simp add: r reactOne_def throwNonBlockingError_def geval_caches
          split: pstate.splits prod.splits option.splits)
       (metis geval_caches(2) snd_conv)
qed

lemma fireTimer_inv: "cachesOk (fireTimer w) = cachesOk w"
  by (rule cachesOk_cong) (simp_all add: fireTimer_def split: list.splits prod.splits)

lemma step_inv: "cachesOk w \<Longrightarrow> cachesOk (step u ev w)"
proof (cases ev)
  case (ReqStyles styles)
  then show "cachesOk w \<Longrightarrow> cachesOk (step u ev w)"
    by (simp add: getExternalStyleSheets_def mapState_inv[where P = cachesOk, OF resolveStyle_inv])
next
  case (ReqScripts scripts)
  then show "cachesOk w \<Longrightarrow> cachesOk (step u ev w)"
    by (simp add: getExternalScripts_def mapState_inv[where P = cachesOk, OF resolveScript_inv])
next
  case (Settle p outcome)
  then show "cachesOk w \<Longrightarrow> cachesOk (step u ev w)" by (simp add: settleFetch_inv)
next
  case Idle
  then show "cachesOk w \<Longrightarrow> cachesOk (step u ev w)" by (simp add: runIdle_inv)
next
  case Propagate
  then show "cachesOk w \<Longrightarrow> cachesOk (step u ev w)"
    by (simp add: propagate_def foldl_inv[where P = cachesOk] propagateOne_inv)
next
  case React
  assume ok: "cachesOk w"
  have "cachesOk (w\<lparr>reactions := []\<rparr>) = cachesOk w"
    by (rule cachesOk_cong) simp_all
  with ok React show "cachesOk (step u ev w)"
    by (simp add: react_def foldl_inv[where P = cachesOk] reactOne_inv)
next
  case Timer
  then show "cachesOk w \<Longrightarrow> cachesOk (step u ev w)" by (simp add: fireTimer_inv)
qed

lemma run_inv: "cachesOk w \<Longrightarrow> cachesOk (run u evs w)"
  by (induction evs arbitrary: w) (simp_all add: step_inv)


section \<open>A cached promise stays\<close>

lemma reactOne_caches:
  "scriptCache (reactOne u w r) = scriptCache w" "styleCache (reactOne u w r) = styleCache w"
proof -
  obtain content loc c where r: "r = (content, loc, c)" by (cases r)
  show "scriptCache (reactOne u w r) = scriptCache w"
    by (simp add: r reactOne_def throwNonBlockingError_def geval_caches
          split: pstate.splits prod.splits option.splits)
       (metis geval_caches(3) snd_conv)
  show "styleCache (reactOne u w r) = styleCache w"
    by (simp add: r reactOne_def throwNonBlockingError_def geval_caches
          split: pstate.splits prod.splits option.splits)
       (metis geval_caches(2) snd_conv)
qed

lemma resolveScript_caches:
  "scriptCache w L = Some p \<Longrightarrow> scriptCache (snd (resolveScript u scr w)) L = Some p"
  "styleCache (snd (resolveScript u scr w)) = styleCache w"
  by (cases scr;
      auto simp add: resolveScript_def requestIdleCallback_def Let_def fetchScript_def fetchCall_def
        split: prod.splits option.splits)+

lemma resolveStyle_caches:
  "styleCache w L = Some p \<Longrightarrow> styleCache (snd (resolveStyle u loc w)) L = Some p"
  by (auto simp add: resolveStyle_effect)

lemma runIdle_caches:
  "scriptCache w L = Some p \<Longrightarrow> scriptCache (runIdle w) L = Some p"
  "styleCache (runIdle w) = styleCache w"
  by (auto simp add: runIdle_def fetchScript_def fetchCall_def
        split: list.splits idleTask.splits prod.splits option.splits)

lemma step_keeps_script:
  assumes "scriptCache w L = Some p"
  shows "scriptCache (step u ev w) L = Some p"
proof (cases ev)
  case (ReqStyles styles)
  have "scriptCache (snd (mapState (resolveStyle u) styles w)) L = Some p"
    by (rule mapState_inv[where P = "\<lambda>w. scriptCache w L = Some p"])
       (simp_all add: resolveStyle_effect assms)
  with ReqStyles show ?thesis by (simp add: getExternalStyleSheets_def)
next
  case (ReqScripts scripts)
  have "scriptCache (snd (mapState (resolveScript u) scripts w)) L = Some p"
    by (rule mapState_inv[where P = "\<lambda>w. scriptCache w L = Some p"])
       (simp_all add: resolveScript_caches assms)
  with ReqScripts show ?thesis by (simp add: getExternalScripts_def)
next
  case (Settle q outcome)
  with assms show ?thesis by (simp add: settleFetch_def split: sum.splits)
next
  case Idle
  with assms show ?thesis by (simp add: runIdle_caches)
next
  case Propagate
  have "scriptCache (foldl propagateOne w (links w)) L = Some p"
    by (rule foldl_inv[where P = "\<lambda>w. scriptCache w L = Some p"])
       (simp_all add: propagateOne_def assms split: prod.splits)
  with Propagate show ?thesis by (simp add: propagate_def)
next
  case React
  have "scriptCache (foldl (reactOne u) (w\<lparr>reactions := []\<rparr>) (reactions w)) L = Some p"
    by (rule foldl_inv[where P = "\<lambda>w. scriptCache w L = Some p"])
       (simp_all add: reactOne_caches assms)
  with React show ?thesis by (simp add: react_def)
next
  case Timer
  with assms show ?thesis by (simp add: fireTimer_def split: list.splits prod.splits)
qed

lemma step_keeps_style:
  assumes "styleCache w L = Some p"
  shows "styleCache (step u ev w) L = Some p"
proof (cases ev)
  case (ReqStyles styles)
  have "styleCache (snd (mapState (resolveStyle u) styles w)) L = Some p"
    by (rule mapState_inv[where P = "\<lambda>w. styleCache w L = Some p"])
       (simp_all add: resolveStyle_caches assms)
  with ReqStyles show ?thesis by (simp add: getExternalStyleSheets_def)
next
  case (ReqScripts scripts)
  have "styleCache (snd (mapState (resolveScript u) scripts w)) L = Some p"
    by (rule mapState_inv[where P = "\<lambda>w. styleCache w L = Some p"])
       (simp_all add: resolveScript_caches assms)
  with ReqScripts show ?thesis by (simp add: getExternalScripts_def)
next
  case (Settle q outcome)
  with assms show ?thesis by (simp add: settleFetch_def split: sum.splits)
next
  case Idle
  with assms show ?thesis by (simp add: runIdle_caches)
next
  case Propagate
  have "styleCache (foldl propagateOne w (links w)) L = Some p"
    by (rule foldl_inv[where P = "\<lambda>w. styleCache w L = Some p"])
       (simp_all add: propagateOne_def assms split: prod.splits)
  with Propagate show ?thesis by (simp add: propagate_def)
next
  case React
  have "styleCache (foldl (reactOne u) (w\<lparr>reactions := []\<rparr>) (reactions w)) L = Some p"
    by (rule foldl_inv[where P = "\<lambda>w. styleCache w L = Some p"])
       (simp_all add: reactOne_caches assms)
  with React show ?thesis by (simp add: react_def)
next
  case Timer
  with assms show ?thesis by (simp add: fireTimer_def split: list.splits prod.splits)
qed

lemma run_keeps:
  "scriptCache w L = Some p \<Longrightarrow> scriptCache (run u evs w) L = Some p"
  "styleCache w L = Some q \<Longrightarrow> styleCache (run u evs w) L = Some q"
  by (induction evs arbitrary: w) (simp_all add: step_keeps_script step_keeps_style)


text \<open>
  Claim C3, as stated, fails: the style cache and the script cache are two objects. A
  location requested once as a style and once as a script is fetched twice.
\<close>

theorem fetch_twice_across_caches:
  "fetchLog (run demoUtils [ReqStyles [''http://x/r''], ReqScripts [Str ''http://x/r'']] emptyWorld)
     = [(ForStyle, ''http://x/r'', False), (ForScript, ''http://x/r'', False)]
   \<and> length (filter (\<lambda>(og, l, c). l = ''http://x/r'')
         (fetchLog (run demoUtils [ReqStyles [''http://x/r''], ReqScripts [Str ''http://x/r'']]
                      emptyWorld))) = 2"
  by code_simp

text \<open>
  Claim C3, amended. Count from a world in which nothing has been fetched yet. Whatever
  then happens (style and script resolutions with any lists, idle callbacks, fetches that
  settle either way, reactions, timers), each location has been fetched at most once on
  behalf of the style cache and at most once on behalf of the script cache. A request that
  finds an entry returns the cached promise and changes nothing, whatever the state of that
  promise, rejected included; a request that finds none stores the promise it returns before
  it returns; and an entry, once made, is never replaced.
\<close>

theorem fetch_at_most_once_per_cache:
  assumes "fetchLog w = []"
  shows "fetchCount ForStyle L (run u evs w) \<le> 1 \<and> fetchCount ForScript L (run u evs w) \<le> 1
       \<and> (scriptCache w' L = Some p \<longrightarrow> fetchScript L cred w' = (p, w'))
       \<and> (styleCache w' L = Some p \<and> \<not> isInlineCode L \<longrightarrow> resolveStyle u L w' = (Prom p, w'))
       \<and> (scriptCache w' L = None \<longrightarrow>
            scriptCache (snd (fetchScript L cred w')) L = Some (fst (fetchScript L cred w')))
       \<and> (styleCache w' L = None \<and> \<not> isInlineCode L \<longrightarrow>
            (\<exists>q. fst (resolveStyle u L w') = Prom q
                 \<and> styleCache (snd (resolveStyle u L w')) L = Some q))
       \<and> (scriptCache w' L = Some p \<longrightarrow> scriptCache (run u evs w') L = Some p)
       \<and> (styleCache w' L = Some p \<longrightarrow> styleCache (run u evs w') L = Some p)"
proof -
  have "cachesOk w"
    using assms by (simp add: cachesOk_def fetchCount_def)
  then have "cachesOk (run u evs w)"
    by (rule run_inv)
  then have a: "fetchCount ForStyle L (run u evs w) \<le> 1" "fetchCount ForScript L (run u evs w) \<le> 1"
    by (auto simp add: cachesOk_def intro: order_trans)
  have b: "scriptCache w' L = Some p \<longrightarrow> fetchScript L cred w' = (p, w')"
    by (simp add: fetchScript_def)
  have c: "styleCache w' L = Some p \<and> \<not> isInlineCode L \<longrightarrow> resolveStyle u L w' = (Prom p, w')"
    by (simp add: resolveStyle_def)
  have d: "scriptCache w' L = None \<longrightarrow>
            scriptCache (snd (fetchScript L cred w')) L = Some (fst (fetchScript L cred w'))"
    by (simp add: fetchScript_def fetchCall_def)
  have e: "styleCache w' L = None \<and> \<not> isInlineCode L \<longrightarrow>
            (\<exists>q. fst (resolveStyle u L w') = Prom q
                 \<and> styleCache (snd (resolveStyle u L w')) L = Some q)"
    by (simp add: resolveStyle_def fetchCall_def)
  show ?thesis
    using a b c d e run_keeps[of w' L p u evs] run_keeps(2)[of w' L p u evs] by blast
qed

theorem fetch_at_most_once_per_cache_witness:
  "fetchCount ForScript ''http://x/r''
     (run demoUtils [ReqScripts [Str ''http://x/r''], ReqScripts [Str ''http://x/r''],
                     Settle 0 (Inl (Thrown ''net'')),
                     ReqScripts [Str ''http://x/r'', Obj 1 ''http://x/r'' True False], Idle]
        emptyWorld) \<le> 1
   \<and> fetchLog
     (run demoUtils [ReqScripts [Str ''http://x/r''], ReqScripts [Str ''http://x/r''],
                     Settle 0 (Inl (Thrown ''net'')),
                     ReqScripts [Str ''http://x/r'', Obj 1 ''http://x/r'' True False], Idle]
        emptyWorld) = [(ForScript, ''http://x/r'', False)]
   \<and> promises
     (run demoUtils [ReqScripts [Str ''http://x/r''], ReqScripts [Str ''http://x/r''],
                     Settle 0 (Inl (Thrown ''net'')),
                     ReqScripts [Str ''http://x/r'', Obj 1 ''http://x/r'' True False], Idle]
        emptyWorld) ! 0 = Rejected (Thrown ''net'')"
proof -
  let ?evs = "[ReqScripts [Str ''http://x/r''], ReqScripts [Str ''http://x/r''],
               Settle 0 (Inl (Thrown ''net'')),
               ReqScripts [Str ''http://x/r'', Obj 1 ''http://x/r'' True False], Idle]"
  have h: "fetchLog emptyWorld = []" by (simp add: emptyWorld_def)
  note t = fetch_at_most_once_per_cache[OF h, where u = demoUtils and evs = "?evs"
             and L = "''http://x/r''"]
  have a: "fetchCount ForScript ''http://x/r'' (run demoUtils ?evs emptyWorld) \<le> 1"
    using t[THEN conjunct2, THEN conjunct1] .
  have b: "fetchLog (run demoUtils ?evs emptyWorld) = [(ForScript, ''http://x/r'', False)]"
    by code_simp
  have c: "promises (run demoUtils ?evs emptyWorld) ! 0 = Rejected (Thrown ''net'')"
    by code_simp
  show ?thesis using a b c by (intro conjI)
qed

section \<open>Async scripts\<close>



















end
